theory Spec2Isabelle
  imports Complex_Main "HOL-Library.Sublist"
begin

section \<open>The chat application of \<open>app.py\<close>\<close>

text \<open>
  The script is re-executed from top to bottom on every user interaction; what survives
  between two executions is \<open>st.session_state\<close>. One execution is modelled by \<open>main\<close>:
  it takes the inputs of that execution (secrets, environment, the widget values, the
  behaviour of the remote endpoint) and the session state, and returns the new session
  state together with what the execution did to the outside: the calls that draw on the
  page and the requests handed to \<open>client.responses.stream\<close>.

  Python strings are byte lists in UTF-8 here; the two emoji of the error messages are
  written out as their bytes. Purely decorative calls (\<open>st.set_page_config\<close>, titles and
  dividers) draw nothing any function reads and are left out of the log.
\<close>

subsection \<open>Data\<close>

text \<open>A message is the dict \<open>{"role": ..., "content": ...}\<close>.\<close>

record message =
  role :: string
  content :: string

text \<open>
  \<open>st.session_state\<close>: the five keys the script uses. \<open>None\<close> is a key that is not in the
  session state (the test \<open>"messages" not in st.session_state\<close> of \<open>init_state\<close>).
\<close>

record session_state =
  messages :: "message list option"
  model :: "string option"
  temperature :: "real option"
  verbosity :: "string option"
  reasoning_effort :: "string option"

text \<open>
  The keyword arguments of \<open>client.responses.stream\<close>: \<open>model\<close>, \<open>input\<close>,
  \<open>text={"verbosity": ...}\<close> and \<open>reasoning={"effort": ...}\<close>.
\<close>

record request =
  req_model :: string
  req_input :: "message list"
  req_text_verbosity :: string
  req_reasoning_effort :: string

text \<open>
  A stream event: its \<open>type\<close> and, read only on text deltas, its \<open>delta\<close>. Iterating the
  stream either yields the next event or raises an \<open>Exception\<close> (given by its \<open>str\<close>);
  \<open>until_done\<close> is the outcome of the call \<open>stream.until_done()\<close> after the loop
  (\<open>Some e\<close>: it raises \<open>e\<close>). Only exceptions that \<open>except Exception\<close> catches are
  modelled.
\<close>

record event =
  type :: string
  delta :: string

datatype item = Yield event | Throw string

record stream =
  items :: "item list"
  until_done :: "string option"

text \<open>
  The client: the key it was built with, and what opening a stream for a request does
  (\<open>Inl e\<close>: the call or entering the \<open>with\<close> block raises \<open>e\<close>).
\<close>

type_synonym endpoint = "request \<Rightarrow> string + stream"

record client =
  api_key :: string
  responses_stream :: endpoint

text \<open>What one execution draws on the page, in call order.\<close>

datatype ui_call =
    St_error string
  | Chat_message string
  | St_markdown string
  | St_empty
  | Placeholder_markdown string

record effects =
  ui :: "ui_call list"
  calls :: "request list"

text \<open>
  The exceptions no \<open>except\<close> clause of the script catches: a read of a key that is not
  in the session state, and the read of \<open>st.secrets\<close> when there is no secrets file.
\<close>

datatype error = AttributeError string | StreamlitSecretNotFoundError

subsection \<open>Python truthiness\<close>

fun truthy :: "string option \<Rightarrow> bool" where
  "truthy None = False"
| "truthy (Some s) = (s \<noteq> [])"

definition py_or :: "string option \<Rightarrow> string option \<Rightarrow> string option" where
  "py_or x y = (if truthy x then x else y)"

subsection \<open>\<open>get_client\<close>\<close>

definition missing_key_message :: string where
  "missing_key_message =
     [CHR 0xE2, CHR 0x9A, CHR 0xA0, CHR 0xEF, CHR 0xB8, CHR 0x8F] @
     '' Missing API key. Set OPENAI_API_KEY in .streamlit/secrets.toml or as an env var.''"

text \<open>
  \<open>st.secrets\<close> is \<open>None\<close> when the installation has no secrets file: then
  \<open>st.secrets.get\<close> raises instead of returning \<open>None\<close>, the \<open>or\<close> never evaluates
  \<open>os.getenv\<close>, and nothing in \<open>get_client\<close> catches the exception. With a secrets file
  the call is the lookup in its entries.

  The result: \<open>Inl e\<close>, the exception \<open>e\<close> leaves \<open>get_client\<close>; \<open>Inr (Inl msg)\<close>,
  \<open>st.error(msg)\<close> followed by \<open>st.stop()\<close>, which ends the execution of the script;
  \<open>Inr (Inr c)\<close>, the client is returned.
\<close>

definition get_client ::
  "(string \<rightharpoonup> string) option \<Rightarrow> (string \<rightharpoonup> string) \<Rightarrow> endpoint \<Rightarrow>
     error + string + client" where
  "get_client secrets environ ep =
     (case secrets of
        None \<Rightarrow> Inl StreamlitSecretNotFoundError
      | Some entries \<Rightarrow>
          (case py_or (entries ''OPENAI_API_KEY'') (environ ''OPENAI_API_KEY'') of
             None \<Rightarrow> Inr (Inl missing_key_message)
           | Some k \<Rightarrow>
               if k = [] then Inr (Inl missing_key_message)
               else Inr (Inr \<lparr>api_key = k, responses_stream = ep\<rparr>)))"

subsection \<open>\<open>init_state\<close>\<close>

definition init_state :: "session_state \<Rightarrow> session_state" where
  "init_state s =
     (let s1 = (if messages s = None then s\<lparr>messages := Some []\<rparr> else s);
          s2 = (if model s1 = None then s1\<lparr>model := Some ''gpt-5-nano''\<rparr> else s1)
      in if temperature s2 = None then s2\<lparr>temperature := Some 0.5\<rparr> else s2)"

subsection \<open>\<open>render_sidebar\<close>\<close>

text \<open>The assignment \<open>st.session_state.messages = []\<close> of the "Clean chat" button.\<close>

definition clean_chat :: "session_state \<Rightarrow> session_state" where
  "clean_chat s = s\<lparr>messages := Some []\<rparr>"

text \<open>
  The three select boxes return the chosen option; the button returns whether it was
  clicked. The result says whether \<open>st.rerun()\<close> was called, which ends the execution.
\<close>

definition render_sidebar ::
  "string \<Rightarrow> string \<Rightarrow> string \<Rightarrow> bool \<Rightarrow> session_state \<Rightarrow> session_state \<times> bool" where
  "render_sidebar model_box verbosity_box effort_box clicked s =
     (let s1 = s\<lparr>model := Some model_box\<rparr>;
          s2 = s1\<lparr>verbosity := Some verbosity_box\<rparr>;
          s3 = s2\<lparr>reasoning_effort := Some effort_box\<rparr>
      in if clicked then (clean_chat s3, True) else (s3, False))"

subsection \<open>\<open>render_history\<close> and \<open>append_and_render_user\<close>\<close>

fun render_messages :: "message list \<Rightarrow> ui_call list" where
  "render_messages [] = []"
| "render_messages (msg # rest) =
     Chat_message (role msg) # St_markdown (content msg) # render_messages rest"

definition render_history :: "session_state \<Rightarrow> effects \<Rightarrow> error + effects" where
  "render_history s fx =
     (case messages s of
        None \<Rightarrow> Inl (AttributeError ''messages'')
      | Some ms \<Rightarrow> Inr (fx\<lparr>ui := ui fx @ render_messages ms\<rparr>))"

definition append_and_render_user ::
  "string \<Rightarrow> session_state \<Rightarrow> effects \<Rightarrow> error + session_state \<times> effects" where
  "append_and_render_user prompt s fx =
     (case messages s of
        None \<Rightarrow> Inl (AttributeError ''messages'')
      | Some ms \<Rightarrow>
          Inr (s\<lparr>messages := Some (ms @ [\<lparr>role = ''user'', content = prompt\<rparr>])\<rparr>,
               fx\<lparr>ui := ui fx @ [Chat_message ''user'', St_markdown prompt]\<rparr>))"

subsection \<open>\<open>stream_response\<close>\<close>

definition generating_error_message :: "string \<Rightarrow> string" where
  "generating_error_message e =
     [CHR 0xE2, CHR 0x9D, CHR 0x8C] @ '' Error while generating: '' @ e"

text \<open>
  The loop \<open>for event in stream\<close>. It carries \<open>full_text\<close> and the page; the first
  component of the result is the exception that left the loop, if any. The page keeps
  what was drawn before an exception.
\<close>

fun for_event_in_stream ::
  "item list \<Rightarrow> string \<Rightarrow> ui_call list \<Rightarrow> string option \<times> string \<times> ui_call list" where
  "for_event_in_stream [] full_text page = (None, full_text, page)"
| "for_event_in_stream (Throw e # rest) full_text page = (Some e, full_text, page)"
| "for_event_in_stream (Yield ev # rest) full_text page =
     (if type ev = ''response.output_text.delta''
      then for_event_in_stream rest (full_text @ delta ev)
             (page @ [Placeholder_markdown (full_text @ delta ev)])
      else for_event_in_stream rest full_text page)"

text \<open>
  The request is logged when \<open>client.responses.stream\<close> is called with it, whatever the
  call does. Every exception goes to the one \<open>except Exception\<close> clause: \<open>st.error\<close>, then
  \<open>return ""\<close>.
\<close>

definition stream_response ::
  "client \<Rightarrow> message list \<Rightarrow> string \<Rightarrow> string \<Rightarrow> string \<Rightarrow> effects \<Rightarrow> string \<times> effects" where
  "stream_response cl msgs mdl verb effort fx =
     (let req = \<lparr>req_model = mdl, req_input = msgs,
                 req_text_verbosity = verb, req_reasoning_effort = effort\<rparr>;
          page = ui fx @ [Chat_message ''assistant'', St_empty];
          sent = calls fx @ [req]
      in case responses_stream cl req of
           Inl e \<Rightarrow>
             ([], \<lparr>ui = page @ [St_error (generating_error_message e)], calls = sent\<rparr>)
         | Inr strm \<Rightarrow>
             (case for_event_in_stream (items strm) [] page of
                (Some e, full_text, page') \<Rightarrow>
                  ([], \<lparr>ui = page' @ [St_error (generating_error_message e)], calls = sent\<rparr>)
              | (None, full_text, page') \<Rightarrow>
                  (case until_done strm of
                     Some e \<Rightarrow>
                       ([], \<lparr>ui = page' @ [St_error (generating_error_message e)],
                             calls = sent\<rparr>)
                   | None \<Rightarrow> (full_text, \<lparr>ui = page', calls = sent\<rparr>))))"

subsection \<open>The script\<close>

text \<open>How an execution of the script ended.\<close>

datatype status = Finished | Stopped | Rerun | Crashed error

record run =
  status :: status
  session :: session_state
  drawn :: "ui_call list"
  requested :: "request list"
  output_text :: "string option"

record inputs =
  secrets :: "(string \<rightharpoonup> string) option"
  environ :: "string \<rightharpoonup> string"
  remote :: endpoint
  model_box :: string
  verbosity_box :: string
  effort_box :: string
  clean_clicked :: bool
  chat_input :: "string option"

definition attr :: "string \<Rightarrow> string option \<Rightarrow> error + string" where
  "attr name v = (case v of None \<Rightarrow> Inl (AttributeError name) | Some x \<Rightarrow> Inr x)"

definition crashed :: "error \<Rightarrow> session_state \<Rightarrow> effects \<Rightarrow> run" where
  "crashed e s fx =
     \<lparr>status = Crashed e, session = s, drawn = ui fx, requested = calls fx,
      output_text = None\<rparr>"

text \<open>
  The body of \<open>if prompt:\<close>: the user message is appended and drawn, the whole list of
  messages is copied into the request, the reply is streamed, and a truthy reply is
  appended as the assistant's message.
\<close>

definition on_prompt :: "client \<Rightarrow> string \<Rightarrow> session_state \<Rightarrow> effects \<Rightarrow> run" where
  "on_prompt cl prompt s fx =
     (case append_and_render_user prompt s fx of
        Inl e \<Rightarrow> crashed e s fx
      | Inr (s1, fx1) \<Rightarrow>
          (case messages s1 of
             None \<Rightarrow> crashed (AttributeError ''messages'') s1 fx1
           | Some ms \<Rightarrow>
               let input_messages = map (\<lambda>m. \<lparr>role = role m, content = content m\<rparr>) ms in
               (case attr ''model'' (model s1) of
                  Inl e \<Rightarrow> crashed e s1 fx1
                | Inr mdl \<Rightarrow>
                    (case attr ''verbosity'' (verbosity s1) of
                       Inl e \<Rightarrow> crashed e s1 fx1
                     | Inr verb \<Rightarrow>
                         (case attr ''reasoning_effort'' (reasoning_effort s1) of
                            Inl e \<Rightarrow> crashed e s1 fx1
                          | Inr effort \<Rightarrow>
                              (case stream_response cl input_messages mdl verb effort fx1 of
                                 (out, fx2) \<Rightarrow>
                                   \<lparr>status = Finished,
                                    session =
                                      (if out \<noteq> []
                                       then s1\<lparr>messages :=
                                              Some (ms @ [\<lparr>role = ''assistant'', content = out\<rparr>])\<rparr>
                                       else s1),
                                    drawn = ui fx2, requested = calls fx2,
                                    output_text = Some out\<rparr>))))))"

definition main :: "inputs \<Rightarrow> session_state \<Rightarrow> run" where
  "main inp s0 =
     (let s1 = init_state s0 in
      case get_client (secrets inp) (environ inp) (remote inp) of
        Inl e \<Rightarrow> crashed e s1 \<lparr>ui = [], calls = []\<rparr>
      | Inr (Inl msg) \<Rightarrow>
          \<lparr>status = Stopped, session = s1, drawn = [St_error msg], requested = [],
           output_text = None\<rparr>
      | Inr (Inr cl) \<Rightarrow>
          (case render_sidebar (model_box inp) (verbosity_box inp) (effort_box inp)
                  (clean_clicked inp) s1 of
             (s2, True) \<Rightarrow>
               \<lparr>status = Rerun, session = s2, drawn = [], requested = [],
                output_text = None\<rparr>
           | (s2, False) \<Rightarrow>
               (case render_history s2 \<lparr>ui = [], calls = []\<rparr> of
                  Inl e \<Rightarrow> crashed e s2 \<lparr>ui = [], calls = []\<rparr>
                | Inr fx \<Rightarrow>
                    (case chat_input inp of
                       None \<Rightarrow>
                         \<lparr>status = Finished, session = s2, drawn = ui fx,
                          requested = calls fx, output_text = None\<rparr>
                     | Some prompt \<Rightarrow>
                         if prompt = []
                         then \<lparr>status = Finished, session = s2, drawn = ui fx,
                               requested = calls fx, output_text = None\<rparr>
                         else on_prompt cl prompt s2 fx))))"

subsection \<open>Notions used to state the properties\<close>

definition fragments :: "event list \<Rightarrow> string list" where
  "fragments evs = map delta (filter (\<lambda>ev. type ev = ''response.output_text.delta'') evs)"

fun first_throw :: "item list \<Rightarrow> string option" where
  "first_throw [] = None"
| "first_throw (Throw e # rest) = Some e"
| "first_throw (Yield ev # rest) = first_throw rest"

fun yielded :: "item list \<Rightarrow> event list" where
  "yielded [] = []"
| "yielded (Throw e # rest) = []"
| "yielded (Yield ev # rest) = ev # yielded rest"

fun raised :: "string + stream \<Rightarrow> string option" where
  "raised (Inl e) = Some e"
| "raised (Inr strm) =
     (case first_throw (items strm) of Some e \<Rightarrow> Some e | None \<Rightarrow> until_done strm)"

fun received :: "string + stream \<Rightarrow> string list" where
  "received (Inl e) = []"
| "received (Inr strm) = fragments (yielded (items strm))"

fun placeholder_values :: "ui_call list \<Rightarrow> string list" where
  "placeholder_values [] = []"
| "placeholder_values (Placeholder_markdown t # rest) = t # placeholder_values rest"
| "placeholder_values (c # rest) = placeholder_values rest"

fun errors_drawn :: "ui_call list \<Rightarrow> string list" where
  "errors_drawn [] = []"
| "errors_drawn (St_error t # rest) = t # errors_drawn rest"
| "errors_drawn (c # rest) = errors_drawn rest"

definition transcript :: "session_state \<Rightarrow> message list" where
  "transcript s = (case messages s of None \<Rightarrow> [] | Some ms \<Rightarrow> ms)"

text \<open>The key \<open>get_client\<close> builds the client with, if it builds one.\<close>

definition credential :: "inputs \<Rightarrow> string option" where
  "credential inp =
     (case secrets inp of
        None \<Rightarrow> None
      | Some entries \<Rightarrow>
          (case entries ''OPENAI_API_KEY'' of
             Some k \<Rightarrow> if k \<noteq> [] then Some k
                       else (case environ inp ''OPENAI_API_KEY'' of
                               Some k' \<Rightarrow> if k' \<noteq> [] then Some k' else None
                             | None \<Rightarrow> None)
           | None \<Rightarrow> (case environ inp ''OPENAI_API_KEY'' of
                        Some k' \<Rightarrow> if k' \<noteq> [] then Some k' else None
                      | None \<Rightarrow> None)))"

definition submits :: "inputs \<Rightarrow> string \<Rightarrow> bool" where
  "submits inp p =
     (credential inp \<noteq> None \<and> \<not> clean_clicked inp \<and> chat_input inp = Some p \<and> p \<noteq> [])"

definition the_request :: "inputs \<Rightarrow> session_state \<Rightarrow> string \<Rightarrow> request" where
  "the_request inp s p =
     \<lparr>req_model = model_box inp,
      req_input = transcript s @ [\<lparr>role = ''user'', content = p\<rparr>],
      req_text_verbosity = verbosity_box inp,
      req_reasoning_effort = effort_box inp\<rparr>"

definition remote_of :: "string + stream \<Rightarrow> endpoint" where
  "remote_of r = (\<lambda>req. r)"

definition text_delta :: "string \<Rightarrow> event" where
  "text_delta t = \<lparr>type = ''response.output_text.delta'', delta = t\<rparr>"

definition other_event :: "string \<Rightarrow> event" where
  "other_event ty = \<lparr>type = ty, delta = []\<rparr>"

subsection \<open>Concrete inputs\<close>

definition demo_client :: "string + stream \<Rightarrow> client" where
  "demo_client r = \<lparr>api_key = ''sk-test'', responses_stream = remote_of r\<rparr>"

definition hello_events :: "event list" where
  "hello_events =
     [other_event ''response.created'', text_delta ''Hel'',
      other_event ''response.in_progress'', text_delta ''lo'']"

definition hello_stream :: stream where
  "hello_stream = \<lparr>items = map Yield hello_events, until_done = None\<rparr>"

definition broken_stream :: stream where
  "broken_stream =
     \<lparr>items = [Yield (text_delta ''Hel''), Yield (text_delta ''lo''), Throw ''connection reset''],
      until_done = None\<rparr>"

definition silent_stream :: stream where
  "silent_stream = \<lparr>items = [Yield (other_event ''response.completed'')], until_done = None\<rparr>"

definition no_effects :: effects where
  "no_effects = \<lparr>ui = [], calls = []\<rparr>"

definition empty_session :: session_state where
  "empty_session =
     \<lparr>messages = None, model = None, temperature = None, verbosity = None,
      reasoning_effort = None\<rparr>"

definition demo_inputs :: "string + stream \<Rightarrow> string option \<Rightarrow> inputs" where
  "demo_inputs r prompt =
     \<lparr>secrets = Some Map.empty, environ = [''OPENAI_API_KEY'' \<mapsto> ''sk-test''],
      remote = remote_of r, model_box = ''gpt-5-nano'', verbosity_box = ''low'',
      effort_box = ''minimal'', clean_clicked = False, chat_input = prompt\<rparr>"

definition used_session :: session_state where
  "used_session =
     \<lparr>messages = Some [\<lparr>role = ''user'', content = ''old question''\<rparr>,
                       \<lparr>role = ''assistant'', content = ''old answer''\<rparr>],
      model = Some ''gpt-5'', temperature = Some 0.5, verbosity = Some ''high'',
      reasoning_effort = Some ''low''\<rparr>"

definition clean_inputs :: inputs where
  "clean_inputs = (demo_inputs (Inr silent_stream) None)\<lparr>clean_clicked := True\<rparr>"

text \<open>
  An installation that sets the key in the environment only and has no secrets file, and
  one that sets no key anywhere.
\<close>

definition env_only_inputs :: inputs where
  "env_only_inputs = (demo_inputs (Inr hello_stream) (Some ''hi''))\<lparr>secrets := None\<rparr>"

definition no_key_inputs :: inputs where
  "no_key_inputs =
     (demo_inputs (Inr hello_stream) (Some ''hi''))\<lparr>secrets := None, environ := Map.empty\<rparr>"

subsection \<open>Helper lemmas\<close>

lemma copy_messages: "map (\<lambda>m. \<lparr>role = role m, content = content m\<rparr>) ms = (ms :: message list)"
  by (induction ms) simp_all

lemma map_prefixes_split: "map f (prefixes xs) = f [] # map f (tl (prefixes xs))"
  by (cases xs) simp_all

lemma fragments_Nil [simp]: "fragments [] = []"
  by (simp add: fragments_def)

lemma fragments_Cons:
  "fragments (ev # evs) =
     (if type ev = ''response.output_text.delta'' then delta ev # fragments evs
      else fragments evs)"
  by (simp add: fragments_def)

lemma fragments_append: "fragments (xs @ ys) = fragments xs @ fragments ys"
  by (simp add: fragments_def)

lemma for_event_in_stream_eq:
  "for_event_in_stream its acc page =
     (first_throw its, acc @ concat (fragments (yielded its)),
      page @ map (\<lambda>p. Placeholder_markdown (acc @ concat p))
               (tl (prefixes (fragments (yielded its)))))"
proof (induction its acc page rule: for_event_in_stream.induct)
  case (1 full_text page)
  show ?case by simp
next
  case (2 e rest full_text page)
  show ?case by simp
next
  case (3 ev rest full_text page)
  show ?case
  proof (cases "type ev = ''response.output_text.delta''")
    case True
    with 3 show ?thesis
      by (simp add: fragments_Cons map_prefixes_split comp_def)
  next
    case False
    with 3 show ?thesis
      by (simp add: fragments_Cons)
  qed
qed

lemma yielded_map_Yield [simp]: "yielded (map Yield evs) = evs"
  by (induction evs) simp_all

lemma first_throw_map_Yield [simp]: "first_throw (map Yield evs) = None"
  by (induction evs) simp_all

lemma yielded_then_Throw [simp]: "yielded (map Yield evs @ Throw e # rest) = evs"
  by (induction evs) simp_all

lemma first_throw_then_Throw [simp]: "first_throw (map Yield evs @ Throw e # rest) = Some e"
  by (induction evs) simp_all

lemma placeholder_values_append:
  "placeholder_values (xs @ ys) = placeholder_values xs @ placeholder_values ys"
  by (induction xs rule: placeholder_values.induct) simp_all

lemma placeholder_values_map:
  "placeholder_values (map (\<lambda>p. Placeholder_markdown (f p)) ps) = map f ps"
  by (induction ps) simp_all

lemma errors_drawn_append: "errors_drawn (xs @ ys) = errors_drawn xs @ errors_drawn ys"
  by (induction xs rule: errors_drawn.induct) simp_all

lemma errors_drawn_map: "errors_drawn (map (\<lambda>p. Placeholder_markdown (f p)) ps) = []"
  by (induction ps) simp_all

lemma stream_response_eq:
  "stream_response cl msgs mdl verb effort fx =
     (let req = \<lparr>req_model = mdl, req_input = msgs,
                 req_text_verbosity = verb, req_reasoning_effort = effort\<rparr>;
          r = responses_stream cl req;
          page = ui fx @ [Chat_message ''assistant'', St_empty] @
                 map (\<lambda>p. Placeholder_markdown (concat p)) (tl (prefixes (received r)))
      in case raised r of
           Some e \<Rightarrow>
             ([], \<lparr>ui = page @ [St_error (generating_error_message e)],
                   calls = calls fx @ [req]\<rparr>)
         | None \<Rightarrow> (concat (received r), \<lparr>ui = page, calls = calls fx @ [req]\<rparr>))"
  by (simp add: stream_response_def for_event_in_stream_eq Let_def
           split: sum.splits option.splits)

lemma get_client_client:
  assumes "credential inp = Some k"
  shows "get_client (secrets inp) (environ inp) ep =
           Inr (Inr \<lparr>api_key = k, responses_stream = ep\<rparr>)"
  using assms
  by (auto simp add: get_client_def credential_def py_or_def split: option.splits if_splits)

lemma get_client_stop:
  assumes "secrets inp = Some entries" and "credential inp = None"
  shows "get_client (secrets inp) (environ inp) ep = Inr (Inl missing_key_message)"
  using assms
  by (auto simp add: get_client_def credential_def py_or_def split: option.splits if_splits)

lemma get_client_raise:
  assumes "secrets inp = None"
  shows "get_client (secrets inp) (environ inp) ep = Inl StreamlitSecretNotFoundError"
  using assms by (simp add: get_client_def)

lemma messages_init_state [simp]: "messages (init_state s) = Some (transcript s)"
  by (simp add: init_state_def transcript_def Let_def split: option.splits)

lemma transcript_init_state [simp]: "transcript (init_state s) = transcript s"
  by (simp add: transcript_def)

lemma main_submit:
  assumes "credential inp = Some k" "\<not> clean_clicked inp" "chat_input inp = Some p" "p \<noteq> []"
  shows "main inp s0 =
     (let ms = transcript s0 @ [\<lparr>role = ''user'', content = p\<rparr>];
          s2 = (init_state s0)\<lparr>model := Some (model_box inp),
                 verbosity := Some (verbosity_box inp),
                 reasoning_effort := Some (effort_box inp),
                 messages := Some ms\<rparr>;
          res = stream_response \<lparr>api_key = k, responses_stream = remote inp\<rparr> ms
                  (model_box inp) (verbosity_box inp) (effort_box inp)
                  \<lparr>ui = render_messages (transcript s0) @ [Chat_message ''user'', St_markdown p],
                   calls = []\<rparr>
      in \<lparr>status = Finished,
          session = (if fst res \<noteq> []
                     then s2\<lparr>messages := Some (ms @ [\<lparr>role = ''assistant'', content = fst res\<rparr>])\<rparr>
                     else s2),
          drawn = ui (snd res), requested = calls (snd res),
          output_text = Some (fst res)\<rparr>)"
  using assms
  by (simp add: main_def get_client_client [OF assms(1)] render_sidebar_def render_history_def
        on_prompt_def append_and_render_user_def attr_def copy_messages Let_def
        split: prod.splits)

lemma main_no_secrets_file:
  assumes "secrets inp = None"
  shows "main inp s0 =
     \<lparr>status = Crashed StreamlitSecretNotFoundError, session = init_state s0, drawn = [],
      requested = [], output_text = None\<rparr>"
  by (simp add: main_def get_client_raise [OF assms] crashed_def Let_def)

lemma main_no_credential:
  assumes "secrets inp = Some entries" and "credential inp = None"
  shows "main inp s0 =
     \<lparr>status = Stopped, session = init_state s0, drawn = [St_error missing_key_message],
      requested = [], output_text = None\<rparr>"
  by (simp add: main_def get_client_stop [OF assms] Let_def)

lemma main_clean:
  assumes "credential inp = Some k" "clean_clicked inp"
  shows "main inp s0 =
     \<lparr>status = Rerun,
      session = clean_chat ((init_state s0)\<lparr>model := Some (model_box inp),
                 verbosity := Some (verbosity_box inp),
                 reasoning_effort := Some (effort_box inp)\<rparr>),
      drawn = [], requested = [], output_text = None\<rparr>"
  using assms
  by (simp add: main_def get_client_client [OF assms(1)] render_sidebar_def Let_def)

lemma main_idle:
  assumes "credential inp = Some k" "\<not> clean_clicked inp"
    "chat_input inp = None \<or> chat_input inp = Some []"
  shows "main inp s0 =
     \<lparr>status = Finished,
      session = (init_state s0)\<lparr>model := Some (model_box inp),
                 verbosity := Some (verbosity_box inp),
                 reasoning_effort := Some (effort_box inp)\<rparr>,
      drawn = render_messages (transcript s0), requested = [], output_text = None\<rparr>"
  using assms
  by (auto simp add: main_def get_client_client [OF assms(1)] render_sidebar_def
        render_history_def Let_def)

lemma init_state_temperature:
  "init_state (s\<lparr>temperature := t\<rparr>) =
     (init_state s)\<lparr>temperature := (case t of None \<Rightarrow> Some 0.5 | Some x \<Rightarrow> Some x)\<rparr>"
  by (simp add: init_state_def Let_def split: option.splits)

lemma transcript_temperature [simp]: "transcript (s\<lparr>temperature := t\<rparr>) = transcript s"
  by (simp add: transcript_def)

lemma main_temperature:
  "main inp (s\<lparr>temperature := t\<rparr>) =
     (main inp s)\<lparr>session := (session (main inp s))
        \<lparr>temperature := (case t of None \<Rightarrow> Some 0.5 | Some x \<Rightarrow> Some x)\<rparr>\<rparr>"
proof (cases "credential inp")
  case None
  show ?thesis
  proof (cases "secrets inp")
    case no_file: None
    then show ?thesis
      by (simp add: main_no_secrets_file init_state_temperature)
  next
    case (Some entries)
    with None show ?thesis
      by (simp add: main_no_credential [of inp entries] init_state_temperature)
  qed
next
  case (Some k)
  show ?thesis
  proof (cases "clean_clicked inp")
    case True
    with Some show ?thesis
      by (simp add: main_clean [of inp k] init_state_temperature clean_chat_def)
  next
    case False
    show ?thesis
    proof (cases "chat_input inp = None \<or> chat_input inp = Some []")
      case True
      with Some False show ?thesis
        by (simp add: main_idle [of inp k] init_state_temperature)
    next
      case no: False
      then obtain p where "chat_input inp = Some p" "p \<noteq> []"
        by (cases "chat_input inp") auto
      with Some False show ?thesis
        by (simp add: main_submit [of inp k p] init_state_temperature Let_def)
    qed
  qed
qed

lemma placeholder_values_render_messages [simp]: "placeholder_values (render_messages ms) = []"
  by (induction ms) simp_all

lemma errors_drawn_render_messages [simp]: "errors_drawn (render_messages ms) = []"
  by (induction ms) simp_all

lemma last_tl_prefixes: "fs \<noteq> [] \<Longrightarrow> tl (prefixes fs) \<noteq> [] \<and> last (tl (prefixes fs)) = fs"
  by (cases fs) (simp_all add: last_map)

text \<open>
  With a secrets file \<open>get_client\<close> resolves the key as its docstring says: a non-empty
  secret first, then the environment variable, otherwise the error and the stop.
\<close>

lemma get_client_with_secrets_file:
  "(entries ''OPENAI_API_KEY'' = Some k \<and> k \<noteq> [] \<longrightarrow>
      get_client (Some entries) env ep = Inr (Inr \<lparr>api_key = k, responses_stream = ep\<rparr>)) \<and>
   (\<not> truthy (entries ''OPENAI_API_KEY'') \<and> env ''OPENAI_API_KEY'' = Some k \<and> k \<noteq> [] \<longrightarrow>
      get_client (Some entries) env ep = Inr (Inr \<lparr>api_key = k, responses_stream = ep\<rparr>)) \<and>
   (\<not> truthy (entries ''OPENAI_API_KEY'') \<and> \<not> truthy (env ''OPENAI_API_KEY'') \<longrightarrow>
      get_client (Some entries) env ep = Inr (Inl missing_key_message))"
  by (cases "entries ''OPENAI_API_KEY''"; cases "env ''OPENAI_API_KEY''")
     (simp_all add: get_client_def py_or_def)

lemma submitsD:
  assumes "submits inp p"
  obtains k where "credential inp = Some k" "\<not> clean_clicked inp" "chat_input inp = Some p"
    "p \<noteq> []"
  using assms by (auto simp add: submits_def)

lemma main_submit_view:
  assumes "submits inp p"
  shows "messages (session (main inp s0)) =
           Some (transcript s0 @ [\<lparr>role = ''user'', content = p\<rparr>] @
                 (case output_text (main inp s0) of
                    None \<Rightarrow> []
                  | Some out \<Rightarrow> if out \<noteq> [] then [\<lparr>role = ''assistant'', content = out\<rparr>] else []))"
    and "requested (main inp s0) = [the_request inp s0 p]"
    and "status (main inp s0) = Finished"
proof -
  from assms obtain k where k: "credential inp = Some k" "\<not> clean_clicked inp"
    "chat_input inp = Some p" "p \<noteq> []"
    by (rule submitsD)
  note m = main_submit [OF k, of s0]
  show "messages (session (main inp s0)) =
           Some (transcript s0 @ [\<lparr>role = ''user'', content = p\<rparr>] @
                 (case output_text (main inp s0) of
                    None \<Rightarrow> []
                  | Some out \<Rightarrow> if out \<noteq> [] then [\<lparr>role = ''assistant'', content = out\<rparr>] else []))"
    by (simp add: m Let_def)
  show "requested (main inp s0) = [the_request inp s0 p]"
    by (simp add: m Let_def stream_response_eq the_request_def split: option.splits)
  show "status (main inp s0) = Finished"
    by (simp add: m Let_def)
qed

lemma main_submit_output:
  assumes "submits inp p"
  shows "output_text (main inp s0) =
           (case raised (remote inp (the_request inp s0 p)) of
              Some e \<Rightarrow> Some []
            | None \<Rightarrow> Some (concat (received (remote inp (the_request inp s0 p)))))"
    and "drawn (main inp s0) =
           render_messages (transcript s0) @ [Chat_message ''user'', St_markdown p] @
           [Chat_message ''assistant'', St_empty] @
           map (\<lambda>p. Placeholder_markdown (concat p))
             (tl (prefixes (received (remote inp (the_request inp s0 p))))) @
           (case raised (remote inp (the_request inp s0 p)) of
              Some e \<Rightarrow> [St_error (generating_error_message e)]
            | None \<Rightarrow> [])"
proof -
  from assms obtain k where k: "credential inp = Some k" "\<not> clean_clicked inp"
    "chat_input inp = Some p" "p \<noteq> []"
    by (rule submitsD)
  note m = main_submit [OF k, of s0]
  show "output_text (main inp s0) =
           (case raised (remote inp (the_request inp s0 p)) of
              Some e \<Rightarrow> Some []
            | None \<Rightarrow> Some (concat (received (remote inp (the_request inp s0 p)))))"
    by (simp add: m Let_def stream_response_eq the_request_def split: option.splits)
  show "drawn (main inp s0) =
           render_messages (transcript s0) @ [Chat_message ''user'', St_markdown p] @
           [Chat_message ''assistant'', St_empty] @
           map (\<lambda>p. Placeholder_markdown (concat p))
             (tl (prefixes (received (remote inp (the_request inp s0 p))))) @
           (case raised (remote inp (the_request inp s0 p)) of
              Some e \<Rightarrow> [St_error (generating_error_message e)]
            | None \<Rightarrow> [])"
    by (simp add: m Let_def stream_response_eq the_request_def split: option.splits)
qed

lemma main_submit_cong:
  assumes "submits inp p" and "transcript s = transcript s'"
  shows "messages (session (main inp s)) = messages (session (main inp s'))"
    and "requested (main inp s) = requested (main inp s')"
    and "output_text (main inp s) = output_text (main inp s')"
    and "drawn (main inp s) = drawn (main inp s')"
proof -
  have r: "the_request inp s p = the_request inp s' p"
    using assms(2) by (simp add: the_request_def)
  show o: "output_text (main inp s) = output_text (main inp s')"
    unfolding main_submit_output(1) [OF assms(1)] r by (rule refl)
  show "messages (session (main inp s)) = messages (session (main inp s'))"
    unfolding main_submit_view(1) [OF assms(1)] assms(2) o by (rule refl)
  show "requested (main inp s) = requested (main inp s')"
    unfolding main_submit_view(2) [OF assms(1)] r by (rule refl)
  show "drawn (main inp s) = drawn (main inp s')"
    unfolding main_submit_output(2) [OF assms(1)] r assms(2) by (rule refl)
qed

section \<open>The claims\<close>

text \<open>
  Claim C1. In a successful run of \<open>stream_response\<close> (the stream is opened, the
  iteration yields the events \<open>evs\<close> and ends, \<open>until_done\<close> returns), the returned text
  is the concatenation of the payloads of the events of type
  \<open>response.output_text.delta\<close>, each once and in arrival order, whatever other events are
  interleaved.
\<close>

theorem stream_response_concatenates_fragments:
  assumes "responses_stream cl
             \<lparr>req_model = mdl, req_input = msgs, req_text_verbosity = verb,
              req_reasoning_effort = effort\<rparr> = Inr strm"
    and "items strm = map Yield evs"
    and "until_done strm = None"
  shows "fst (stream_response cl msgs mdl verb effort fx) = concat (fragments evs)"
  using assms by (simp add: stream_response_eq Let_def)

theorem stream_response_concatenates_fragments_witness:
  "responses_stream (demo_client (Inr hello_stream))
     \<lparr>req_model = ''gpt-5'', req_input = [], req_text_verbosity = ''low'',
      req_reasoning_effort = ''minimal''\<rparr> = Inr hello_stream \<and>
   items hello_stream = map Yield hello_events \<and>
   until_done hello_stream = None \<and>
   fragments hello_events = [''Hel'', ''lo''] \<and>
   fst (stream_response (demo_client (Inr hello_stream)) [] ''gpt-5'' ''low'' ''minimal''
          no_effects) = ''Hello''"
proof -
  have a: "responses_stream (demo_client (Inr hello_stream))
     \<lparr>req_model = ''gpt-5'', req_input = [], req_text_verbosity = ''low'',
      req_reasoning_effort = ''minimal''\<rparr> = Inr hello_stream"
    by (simp add: demo_client_def remote_of_def)
  have b: "items hello_stream = map Yield hello_events"
    by (simp add: hello_stream_def)
  have c: "until_done hello_stream = None"
    by (simp add: hello_stream_def)
  have d: "fragments hello_events = [''Hel'', ''lo'']"
    by (simp add: hello_events_def fragments_def text_delta_def other_event_def)
  from stream_response_concatenates_fragments [OF a b c, where fx = no_effects] a b c d
  show ?thesis by simp
qed

text \<open>
  Claim C2, as stated, fails: a run whose stream raises after two fragments and a
  successful run that receives no fragment return the same value, the empty string.
\<close>

theorem failure_result_counterexample:
  "raised (Inr broken_stream) = Some ''connection reset'' \<and>
   raised (Inr silent_stream) = None \<and>
   fst (stream_response (demo_client (Inr broken_stream)) [] ''gpt-5'' ''low'' ''minimal''
          no_effects) =
   fst (stream_response (demo_client (Inr silent_stream)) [] ''gpt-5'' ''low'' ''minimal''
          no_effects)"
  by (simp add: stream_response_eq demo_client_def remote_of_def broken_stream_def
        silent_stream_def fragments_def text_delta_def other_event_def Let_def)

text \<open>
  Claim C2, amended. When an exception is raised while the stream is opened, iterated or
  awaited, \<open>stream_response\<close> returns the empty string and draws one more error, the
  message of \<open>generating_error_message\<close>; a run without an exception draws no error. The
  returned value alone does not tell a failure from an empty reply; the error drawn does.
\<close>

theorem failure_returns_empty_string_and_notifies:
  "(raised (responses_stream cl
       \<lparr>req_model = mdl, req_input = msgs, req_text_verbosity = verb,
        req_reasoning_effort = effort\<rparr>) = Some e \<longrightarrow>
      fst (stream_response cl msgs mdl verb effort fx) = [] \<and>
      errors_drawn (ui (snd (stream_response cl msgs mdl verb effort fx))) =
        errors_drawn (ui fx) @ [generating_error_message e]) \<and>
   (raised (responses_stream cl
       \<lparr>req_model = mdl, req_input = msgs, req_text_verbosity = verb,
        req_reasoning_effort = effort\<rparr>) = None \<longrightarrow>
      errors_drawn (ui (snd (stream_response cl msgs mdl verb effort fx))) =
        errors_drawn (ui fx))"
  by (simp add: stream_response_eq Let_def errors_drawn_append errors_drawn_map)

theorem failure_returns_empty_string_and_notifies_witness:
  "raised (responses_stream (demo_client (Inr broken_stream))
       \<lparr>req_model = ''gpt-5'', req_input = [], req_text_verbosity = ''low'',
        req_reasoning_effort = ''minimal''\<rparr>) = Some ''connection reset'' \<and>
   fst (stream_response (demo_client (Inr broken_stream)) [] ''gpt-5'' ''low'' ''minimal''
          no_effects) = [] \<and>
   errors_drawn (ui (snd (stream_response (demo_client (Inr broken_stream)) [] ''gpt-5''
          ''low'' ''minimal'' no_effects))) = [generating_error_message ''connection reset''] \<and>
   raised (responses_stream (demo_client (Inr silent_stream))
       \<lparr>req_model = ''gpt-5'', req_input = [], req_text_verbosity = ''low'',
        req_reasoning_effort = ''minimal''\<rparr>) = None \<and>
   errors_drawn (ui (snd (stream_response (demo_client (Inr silent_stream)) [] ''gpt-5''
          ''low'' ''minimal'' no_effects))) = []"
proof -
  have a: "raised (responses_stream (demo_client (Inr broken_stream))
       \<lparr>req_model = ''gpt-5'', req_input = [], req_text_verbosity = ''low'',
        req_reasoning_effort = ''minimal''\<rparr>) = Some ''connection reset''"
    by (simp add: demo_client_def remote_of_def broken_stream_def)
  have b: "raised (responses_stream (demo_client (Inr silent_stream))
       \<lparr>req_model = ''gpt-5'', req_input = [], req_text_verbosity = ''low'',
        req_reasoning_effort = ''minimal''\<rparr>) = None"
    by (simp add: demo_client_def remote_of_def silent_stream_def)
  have c: "errors_drawn (ui no_effects) = []"
    by (simp add: no_effects_def)
  from failure_returns_empty_string_and_notifies
         [where cl = "demo_client (Inr broken_stream)" and mdl = "''gpt-5''" and msgs = "[]"
            and verb = "''low''" and effort = "''minimal''" and e = "''connection reset''"
            and fx = no_effects]
       failure_returns_empty_string_and_notifies
         [where cl = "demo_client (Inr silent_stream)" and mdl = "''gpt-5''" and msgs = "[]"
            and verb = "''low''" and effort = "''minimal''" and fx = no_effects]
       a b c
  show ?thesis by simp
qed

text \<open>
  Claim C3. A user turn whose stream yields the events \<open>evs\<close> and then raises \<open>e\<close>: the
  reply is the empty string although the placeholder had shown the partial text, one error
  is drawn, and the stored messages are the ones before the stream was opened (the earlier
  transcript and the user's message), with no assistant message after them.
\<close>

theorem failure_discards_partial_work:
  assumes "submits inp p"
    and "remote inp (the_request inp s0 p) = Inr strm"
    and "items strm = map Yield evs @ Throw e # rest"
  shows "output_text (main inp s0) = Some [] \<and>
         messages (session (main inp s0)) =
           Some (transcript s0 @ [\<lparr>role = ''user'', content = p\<rparr>]) \<and>
         placeholder_values (drawn (main inp s0)) = map concat (tl (prefixes (fragments evs))) \<and>
         errors_drawn (drawn (main inp s0)) = [generating_error_message e]"
proof -
  have r: "raised (remote inp (the_request inp s0 p)) = Some e"
    using assms(2,3) by simp
  have f: "received (remote inp (the_request inp s0 p)) = fragments evs"
    using assms(2,3) by simp
  have out: "output_text (main inp s0) = Some []"
    using main_submit_output(1) [OF assms(1), of s0] r by simp
  have msgs: "messages (session (main inp s0)) =
           Some (transcript s0 @ [\<lparr>role = ''user'', content = p\<rparr>])"
    using main_submit_view(1) [OF assms(1), of s0] out by simp
  have d: "drawn (main inp s0) =
           render_messages (transcript s0) @ [Chat_message ''user'', St_markdown p] @
           [Chat_message ''assistant'', St_empty] @
           map (\<lambda>p. Placeholder_markdown (concat p)) (tl (prefixes (fragments evs))) @
           [St_error (generating_error_message e)]"
    using main_submit_output(2) [OF assms(1), of s0] r f by simp
  have pv: "placeholder_values (drawn (main inp s0)) = map concat (tl (prefixes (fragments evs)))"
    by (simp add: d placeholder_values_append placeholder_values_map)
  have ed: "errors_drawn (drawn (main inp s0)) = [generating_error_message e]"
    by (simp add: d errors_drawn_append errors_drawn_map)
  from out msgs pv ed show ?thesis by simp
qed

theorem failure_discards_partial_work_witness:
  "submits (demo_inputs (Inr broken_stream) (Some ''hi'')) ''hi'' \<and>
   remote (demo_inputs (Inr broken_stream) (Some ''hi''))
     (the_request (demo_inputs (Inr broken_stream) (Some ''hi'')) empty_session ''hi'') =
     Inr broken_stream \<and>
   items broken_stream =
     map Yield [text_delta ''Hel'', text_delta ''lo''] @ Throw ''connection reset'' # [] \<and>
   output_text (main (demo_inputs (Inr broken_stream) (Some ''hi'')) empty_session) = Some [] \<and>
   messages (session (main (demo_inputs (Inr broken_stream) (Some ''hi'')) empty_session)) =
     Some [\<lparr>role = ''user'', content = ''hi''\<rparr>] \<and>
   placeholder_values (drawn (main (demo_inputs (Inr broken_stream) (Some ''hi'')) empty_session)) =
     [''Hel'', ''Hello'']"
proof -
  have a: "submits (demo_inputs (Inr broken_stream) (Some ''hi'')) ''hi''"
    by (simp add: submits_def credential_def demo_inputs_def)
  have b: "remote (demo_inputs (Inr broken_stream) (Some ''hi''))
     (the_request (demo_inputs (Inr broken_stream) (Some ''hi'')) empty_session ''hi'') =
     Inr broken_stream"
    by (simp add: demo_inputs_def remote_of_def)
  have c: "items broken_stream =
     map Yield [text_delta ''Hel'', text_delta ''lo''] @ Throw ''connection reset'' # []"
    by (simp add: broken_stream_def)
  have d: "transcript empty_session = []"
    by (simp add: transcript_def empty_session_def)
  have e: "map concat (tl (prefixes (fragments [text_delta ''Hel'', text_delta ''lo'']))) =
             [''Hel'', ''Hello'']"
    by (simp add: fragments_def text_delta_def)
  from failure_discards_partial_work [OF a b c] a b c d e
  show ?thesis by simp
qed

text \<open>
  Claim C4, as stated, fails: over the fragments \<open>Hel\<close>, \<open>lo\<close> the placeholder is drawn
  twice, with \<open>Hel\<close> and \<open>Hello\<close>; the empty prefix is never passed to it.
\<close>

theorem render_prefixes_counterexample:
  "items hello_stream = map Yield hello_events \<and>
   fragments hello_events = [''Hel'', ''lo''] \<and>
   placeholder_values (ui (snd (stream_response (demo_client (Inr hello_stream)) [] ''gpt-5''
     ''low'' ''minimal'' no_effects))) = [''Hel'', ''Hello''] \<and>
   placeholder_values (ui (snd (stream_response (demo_client (Inr hello_stream)) [] ''gpt-5''
     ''low'' ''minimal'' no_effects))) \<noteq> map concat (prefixes [''Hel'', ''lo''])"
  by (simp add: stream_response_eq demo_client_def remote_of_def hello_stream_def
        hello_events_def fragments_def text_delta_def other_event_def no_effects_def Let_def
        placeholder_values_append placeholder_values_map)

text \<open>
  Claim C4, amended. In a successful run over the fragments \<open>f1..fN\<close> the values passed to
  \<open>placeholder.markdown\<close> are the \<open>N\<close> prefixes \<open>f1\<close>, \<open>f1+f2\<close>, ..., \<open>f1+...+fN\<close>, one
  after each fragment and none skipped, without the empty prefix; when there is at least
  one fragment, the last value drawn is the returned text.
\<close>

theorem render_values_are_fragment_prefixes:
  assumes "responses_stream cl
             \<lparr>req_model = mdl, req_input = msgs, req_text_verbosity = verb,
              req_reasoning_effort = effort\<rparr> = Inr strm"
    and "items strm = map Yield evs"
    and "until_done strm = None"
  shows "placeholder_values (ui (snd (stream_response cl msgs mdl verb effort fx))) =
           placeholder_values (ui fx) @ map concat (tl (prefixes (fragments evs))) \<and>
         (fragments evs \<noteq> [] \<longrightarrow>
            last (placeholder_values (ui (snd (stream_response cl msgs mdl verb effort fx)))) =
              fst (stream_response cl msgs mdl verb effort fx))"
proof -
  have pv: "placeholder_values (ui (snd (stream_response cl msgs mdl verb effort fx))) =
           placeholder_values (ui fx) @ map concat (tl (prefixes (fragments evs)))"
    using assms
    by (simp add: stream_response_eq Let_def placeholder_values_append placeholder_values_map)
  have out: "fst (stream_response cl msgs mdl verb effort fx) = concat (fragments evs)"
    using assms by (simp add: stream_response_eq Let_def)
  have "last (placeholder_values (ui fx) @ map concat (tl (prefixes (fragments evs)))) =
          concat (fragments evs)" if "fragments evs \<noteq> []"
    using last_tl_prefixes [OF that] by (simp add: last_map)
  with pv out show ?thesis by simp
qed

theorem render_values_are_fragment_prefixes_witness:
  "responses_stream (demo_client (Inr hello_stream))
     \<lparr>req_model = ''gpt-5'', req_input = [], req_text_verbosity = ''low'',
      req_reasoning_effort = ''minimal''\<rparr> = Inr hello_stream \<and>
   items hello_stream = map Yield hello_events \<and>
   until_done hello_stream = None \<and>
   fragments hello_events \<noteq> [] \<and>
   placeholder_values (ui (snd (stream_response (demo_client (Inr hello_stream)) [] ''gpt-5''
     ''low'' ''minimal'' no_effects))) = [''Hel'', ''Hello''] \<and>
   last (placeholder_values (ui (snd (stream_response (demo_client (Inr hello_stream)) []
     ''gpt-5'' ''low'' ''minimal'' no_effects)))) =
     fst (stream_response (demo_client (Inr hello_stream)) [] ''gpt-5'' ''low'' ''minimal''
       no_effects)"
proof -
  have a: "responses_stream (demo_client (Inr hello_stream))
     \<lparr>req_model = ''gpt-5'', req_input = [], req_text_verbosity = ''low'',
      req_reasoning_effort = ''minimal''\<rparr> = Inr hello_stream"
    by (simp add: demo_client_def remote_of_def)
  have b: "items hello_stream = map Yield hello_events"
    by (simp add: hello_stream_def)
  have c: "until_done hello_stream = None"
    by (simp add: hello_stream_def)
  have d: "fragments hello_events = [''Hel'', ''lo'']"
    by (simp add: hello_events_def fragments_def text_delta_def other_event_def)
  have e: "placeholder_values (ui no_effects) = []"
    by (simp add: no_effects_def)
  have d': "fragments hello_events \<noteq> []"
    using d by simp
  note r = render_values_are_fragment_prefixes [OF a b c, where fx = no_effects]
  have p1: "placeholder_values (ui (snd (stream_response (demo_client (Inr hello_stream)) []
     ''gpt-5'' ''low'' ''minimal'' no_effects))) = [''Hel'', ''Hello'']"
    using r d e by simp
  have p2: "last (placeholder_values (ui (snd (stream_response (demo_client (Inr hello_stream))
     [] ''gpt-5'' ''low'' ''minimal'' no_effects)))) =
     fst (stream_response (demo_client (Inr hello_stream)) [] ''gpt-5'' ''low'' ''minimal''
       no_effects)"
    using r d' by blast
  show ?thesis
    by (intro conjI) (fact a b c d' p1 p2)+
qed

text \<open>
  Claim C5. When the iteration ends after the events \<open>evs\<close> and nothing raises,
  \<open>stream_response\<close> returns the concatenation of their fragments; the function is total,
  so it always returns. A further event that is not a text delta, such as the completion
  signal \<open>response.completed\<close>, changes neither the result nor what is drawn.
\<close>

theorem end_of_events_finalizes:
  assumes "responses_stream cl
             \<lparr>req_model = mdl, req_input = msgs, req_text_verbosity = verb,
              req_reasoning_effort = effort\<rparr> =
             Inr \<lparr>items = map Yield evs, until_done = None\<rparr>"
    and "responses_stream cl'
             \<lparr>req_model = mdl, req_input = msgs, req_text_verbosity = verb,
              req_reasoning_effort = effort\<rparr> =
             Inr \<lparr>items = map Yield (evs @ [completion]), until_done = None\<rparr>"
    and "type completion \<noteq> ''response.output_text.delta''"
  shows "stream_response cl msgs mdl verb effort fx =
           (concat (fragments evs),
            \<lparr>ui = ui fx @ [Chat_message ''assistant'', St_empty] @
                  map Placeholder_markdown (map concat (tl (prefixes (fragments evs)))),
             calls = calls fx @
               [\<lparr>req_model = mdl, req_input = msgs, req_text_verbosity = verb,
                 req_reasoning_effort = effort\<rparr>]\<rparr>) \<and>
         stream_response cl' msgs mdl verb effort fx = stream_response cl msgs mdl verb effort fx"
proof -
  have "fragments (evs @ [completion]) = fragments evs"
    using assms(3) by (simp add: fragments_append fragments_Cons)
  moreover have "yielded (map Yield evs @ [Yield completion]) = evs @ [completion]"
    using yielded_map_Yield [of "evs @ [completion]"] by simp
  moreover have "first_throw (map Yield evs @ [Yield completion]) = None"
    using first_throw_map_Yield [of "evs @ [completion]"] by simp
  ultimately show ?thesis
    using assms(1,2) by (simp add: stream_response_eq Let_def comp_def)
qed

theorem end_of_events_finalizes_witness:
  "responses_stream (demo_client (Inr \<lparr>items = map Yield [text_delta ''A'', text_delta ''B''],
       until_done = None\<rparr>))
     \<lparr>req_model = ''gpt-5'', req_input = [], req_text_verbosity = ''low'',
      req_reasoning_effort = ''minimal''\<rparr> =
     Inr \<lparr>items = map Yield [text_delta ''A'', text_delta ''B''], until_done = None\<rparr> \<and>
   type (other_event ''response.completed'') \<noteq> ''response.output_text.delta'' \<and>
   fst (stream_response (demo_client (Inr \<lparr>items = map Yield [text_delta ''A'', text_delta ''B''],
       until_done = None\<rparr>)) [] ''gpt-5'' ''low'' ''minimal'' no_effects) = ''AB'' \<and>
   stream_response (demo_client (Inr \<lparr>items = map Yield ([text_delta ''A'', text_delta ''B''] @
       [other_event ''response.completed'']), until_done = None\<rparr>)) [] ''gpt-5'' ''low''
       ''minimal'' no_effects =
   stream_response (demo_client (Inr \<lparr>items = map Yield [text_delta ''A'', text_delta ''B''],
       until_done = None\<rparr>)) [] ''gpt-5'' ''low'' ''minimal'' no_effects"
proof -
  have a: "responses_stream (demo_client (Inr \<lparr>items = map Yield [text_delta ''A'', text_delta ''B''],
       until_done = None\<rparr>))
     \<lparr>req_model = ''gpt-5'', req_input = [], req_text_verbosity = ''low'',
      req_reasoning_effort = ''minimal''\<rparr> =
     Inr \<lparr>items = map Yield [text_delta ''A'', text_delta ''B''], until_done = None\<rparr>"
    by (simp add: demo_client_def remote_of_def)
  have b: "responses_stream (demo_client (Inr \<lparr>items = map Yield ([text_delta ''A'',
       text_delta ''B''] @ [other_event ''response.completed'']), until_done = None\<rparr>))
     \<lparr>req_model = ''gpt-5'', req_input = [], req_text_verbosity = ''low'',
      req_reasoning_effort = ''minimal''\<rparr> =
     Inr \<lparr>items = map Yield ([text_delta ''A'', text_delta ''B''] @
       [other_event ''response.completed'']), until_done = None\<rparr>"
    by (simp add: demo_client_def remote_of_def)
  have c: "type (other_event ''response.completed'') \<noteq> ''response.output_text.delta''"
    by (simp add: other_event_def)
  have d: "concat (fragments [text_delta ''A'', text_delta ''B'']) = ''AB''"
    by (simp add: fragments_def text_delta_def)
  from end_of_events_finalizes [OF a b c, where fx = no_effects] a c d
  show ?thesis by simp
qed

text \<open>
  Claim C6. A user turn sends one request, whose \<open>input\<close> is the whole transcript so far
  followed by the new user message, as it is stored. In particular, after two turns with
  non-empty replies \<open>a1\<close> and \<open>a2\<close> on a fresh session, the request of the third turn
  carries the four earlier messages and the new one, in order.
\<close>

theorem full_transcript_resend:
  "(submits inp p \<longrightarrow>
      map req_input (requested (main inp s0)) =
        [transcript s0 @ [\<lparr>role = ''user'', content = p\<rparr>]]) \<and>
   (submits inp1 p1 \<and> submits inp2 p2 \<and> submits inp3 p3 \<and> transcript s0 = [] \<and>
    output_text (main inp1 s0) = Some a1 \<and> a1 \<noteq> [] \<and>
    output_text (main inp2 (session (main inp1 s0))) = Some a2 \<and> a2 \<noteq> [] \<longrightarrow>
      map req_input
        (requested (main inp3 (session (main inp2 (session (main inp1 s0)))))) =
        [[\<lparr>role = ''user'', content = p1\<rparr>, \<lparr>role = ''assistant'', content = a1\<rparr>,
          \<lparr>role = ''user'', content = p2\<rparr>, \<lparr>role = ''assistant'', content = a2\<rparr>,
          \<lparr>role = ''user'', content = p3\<rparr>]])"
proof (intro conjI impI)
  assume "submits inp p"
  then show "map req_input (requested (main inp s0)) =
        [transcript s0 @ [\<lparr>role = ''user'', content = p\<rparr>]]"
    by (simp add: main_submit_view(2) the_request_def)
next
  assume h: "submits inp1 p1 \<and> submits inp2 p2 \<and> submits inp3 p3 \<and> transcript s0 = [] \<and>
    output_text (main inp1 s0) = Some a1 \<and> a1 \<noteq> [] \<and>
    output_text (main inp2 (session (main inp1 s0))) = Some a2 \<and> a2 \<noteq> []"
  let ?s1 = "session (main inp1 s0)"
  let ?s2 = "session (main inp2 ?s1)"
  have t1: "transcript ?s1 =
      [\<lparr>role = ''user'', content = p1\<rparr>, \<lparr>role = ''assistant'', content = a1\<rparr>]"
    using main_submit_view(1) [of inp1 p1 s0] h by (simp add: transcript_def)
  have t2: "transcript ?s2 =
      [\<lparr>role = ''user'', content = p1\<rparr>, \<lparr>role = ''assistant'', content = a1\<rparr>,
       \<lparr>role = ''user'', content = p2\<rparr>, \<lparr>role = ''assistant'', content = a2\<rparr>]"
    using main_submit_view(1) [of inp2 p2 ?s1] h t1 by (simp add: transcript_def)
  show "map req_input (requested (main inp3 ?s2)) =
        [[\<lparr>role = ''user'', content = p1\<rparr>, \<lparr>role = ''assistant'', content = a1\<rparr>,
          \<lparr>role = ''user'', content = p2\<rparr>, \<lparr>role = ''assistant'', content = a2\<rparr>,
          \<lparr>role = ''user'', content = p3\<rparr>]]"
    using main_submit_view(2) [of inp3 p3 ?s2] h t2 by (simp add: the_request_def)
qed

theorem full_transcript_resend_witness:
  "submits (demo_inputs (Inr hello_stream) (Some ''one'')) ''one'' \<and>
   submits (demo_inputs (Inr hello_stream) (Some ''two'')) ''two'' \<and>
   submits (demo_inputs (Inr hello_stream) (Some ''three'')) ''three'' \<and>
   transcript empty_session = [] \<and>
   output_text (main (demo_inputs (Inr hello_stream) (Some ''one'')) empty_session) =
     Some ''Hello'' \<and>
   output_text (main (demo_inputs (Inr hello_stream) (Some ''two''))
     (session (main (demo_inputs (Inr hello_stream) (Some ''one'')) empty_session))) =
     Some ''Hello'' \<and>
   map req_input (requested (main (demo_inputs (Inr hello_stream) (Some ''one''))
     empty_session)) = [[\<lparr>role = ''user'', content = ''one''\<rparr>]] \<and>
   map req_input (requested (main (demo_inputs (Inr hello_stream) (Some ''three''))
     (session (main (demo_inputs (Inr hello_stream) (Some ''two''))
       (session (main (demo_inputs (Inr hello_stream) (Some ''one'')) empty_session)))))) =
     [[\<lparr>role = ''user'', content = ''one''\<rparr>, \<lparr>role = ''assistant'', content = ''Hello''\<rparr>,
       \<lparr>role = ''user'', content = ''two''\<rparr>, \<lparr>role = ''assistant'', content = ''Hello''\<rparr>,
       \<lparr>role = ''user'', content = ''three''\<rparr>]]"
proof -
  have s: "submits (demo_inputs (Inr hello_stream) (Some p)) p" if "p \<noteq> []" for p
    using that by (simp add: submits_def credential_def demo_inputs_def)
  have o: "output_text (main (demo_inputs (Inr hello_stream) (Some p)) s) = Some ''Hello''"
    if "p \<noteq> []" for p s
    using main_submit_output(1) [OF s [OF that], of s]
    by (simp add: demo_inputs_def remote_of_def hello_stream_def hello_events_def
          fragments_def text_delta_def other_event_def)
  have t: "transcript empty_session = []"
    by (simp add: transcript_def empty_session_def)
  have s1: "submits (demo_inputs (Inr hello_stream) (Some ''one'')) ''one''"
    by (rule s) simp
  have s2: "submits (demo_inputs (Inr hello_stream) (Some ''two'')) ''two''"
    by (rule s) simp
  have s3: "submits (demo_inputs (Inr hello_stream) (Some ''three'')) ''three''"
    by (rule s) simp
  have o1: "output_text (main (demo_inputs (Inr hello_stream) (Some ''one'')) empty_session) =
     Some ''Hello''"
    by (rule o) simp
  have o2: "output_text (main (demo_inputs (Inr hello_stream) (Some ''two''))
     (session (main (demo_inputs (Inr hello_stream) (Some ''one'')) empty_session))) =
     Some ''Hello''"
    by (rule o) simp
  note r = full_transcript_resend
     [where inp = "demo_inputs (Inr hello_stream) (Some ''one'')" and p = "''one''"
        and ?s0.0 = empty_session
        and ?inp1.0 = "demo_inputs (Inr hello_stream) (Some ''one'')" and ?p1.0 = "''one''"
        and ?inp2.0 = "demo_inputs (Inr hello_stream) (Some ''two'')" and ?p2.0 = "''two''"
        and ?inp3.0 = "demo_inputs (Inr hello_stream) (Some ''three'')" and ?p3.0 = "''three''"
        and ?a1.0 = "''Hello''" and ?a2.0 = "''Hello''"]
  have r1: "map req_input (requested (main (demo_inputs (Inr hello_stream) (Some ''one''))
     empty_session)) = [[\<lparr>role = ''user'', content = ''one''\<rparr>]]"
    using r s1 t by simp
  have r3: "map req_input (requested (main (demo_inputs (Inr hello_stream) (Some ''three''))
     (session (main (demo_inputs (Inr hello_stream) (Some ''two''))
       (session (main (demo_inputs (Inr hello_stream) (Some ''one'')) empty_session)))))) =
     [[\<lparr>role = ''user'', content = ''one''\<rparr>, \<lparr>role = ''assistant'', content = ''Hello''\<rparr>,
       \<lparr>role = ''user'', content = ''two''\<rparr>, \<lparr>role = ''assistant'', content = ''Hello''\<rparr>,
       \<lparr>role = ''user'', content = ''three''\<rparr>]]"
    using r s1 s2 s3 t o1 o2 by simp
  show ?thesis
    by (intro conjI) (fact s1 s2 s3 t o1 o2 r1 r3)+
qed

text \<open>
  Claim C7. The reset \<open>st.session_state.messages = []\<close> gives the empty transcript, once
  or twice in a row, and doing it twice is doing it once. Appending a user message after
  a reset stores the same transcript as appending it to the transcript \<open>init_state\<close>
  creates in an empty session. For the script: an execution with the button clicked ends
  in \<open>st.rerun()\<close> with the empty transcript, also when repeated, and a user turn after it
  stores, sends, returns and draws what it does on a new session.
\<close>

theorem reset_idempotent:
  "messages (clean_chat s) = Some [] \<and>
   messages (clean_chat (clean_chat s)) = Some [] \<and>
   clean_chat (clean_chat s) = clean_chat s \<and>
   append_and_render_user p (clean_chat s) fx =
     Inr ((clean_chat s)\<lparr>messages := Some [\<lparr>role = ''user'', content = p\<rparr>]\<rparr>,
          fx\<lparr>ui := ui fx @ [Chat_message ''user'', St_markdown p]\<rparr>) \<and>
   append_and_render_user p (init_state empty_session) fx =
     Inr ((init_state empty_session)\<lparr>messages := Some [\<lparr>role = ''user'', content = p\<rparr>]\<rparr>,
          fx\<lparr>ui := ui fx @ [Chat_message ''user'', St_markdown p]\<rparr>) \<and>
   (credential inp \<noteq> None \<and> clean_clicked inp \<longrightarrow>
      status (main inp s) = Rerun \<and>
      messages (session (main inp s)) = Some [] \<and>
      messages (session (main inp (session (main inp s)))) = Some [] \<and>
      (submits inp' p \<longrightarrow>
         messages (session (main inp' (session (main inp s)))) =
           messages (session (main inp' empty_session)) \<and>
         requested (main inp' (session (main inp s))) = requested (main inp' empty_session) \<and>
         output_text (main inp' (session (main inp s))) =
           output_text (main inp' empty_session) \<and>
         drawn (main inp' (session (main inp s))) = drawn (main inp' empty_session)))"
proof -
  have a: "messages (clean_chat s) = Some []"
    and b: "messages (clean_chat (clean_chat s)) = Some []"
    and c: "clean_chat (clean_chat s) = clean_chat s"
    by (simp_all add: clean_chat_def)
  have d: "append_and_render_user p (clean_chat s) fx =
     Inr ((clean_chat s)\<lparr>messages := Some [\<lparr>role = ''user'', content = p\<rparr>]\<rparr>,
          fx\<lparr>ui := ui fx @ [Chat_message ''user'', St_markdown p]\<rparr>)"
    by (simp add: append_and_render_user_def clean_chat_def)
  have te: "transcript empty_session = []"
    by (simp add: transcript_def empty_session_def)
  have e: "append_and_render_user p (init_state empty_session) fx =
     Inr ((init_state empty_session)\<lparr>messages := Some [\<lparr>role = ''user'', content = p\<rparr>]\<rparr>,
          fx\<lparr>ui := ui fx @ [Chat_message ''user'', St_markdown p]\<rparr>)"
    by (simp add: append_and_render_user_def te)
  have f: "status (main inp s) = Rerun \<and>
      messages (session (main inp s)) = Some [] \<and>
      messages (session (main inp (session (main inp s)))) = Some [] \<and>
      (submits inp' p \<longrightarrow>
         messages (session (main inp' (session (main inp s)))) =
           messages (session (main inp' empty_session)) \<and>
         requested (main inp' (session (main inp s))) = requested (main inp' empty_session) \<and>
         output_text (main inp' (session (main inp s))) =
           output_text (main inp' empty_session) \<and>
         drawn (main inp' (session (main inp s))) = drawn (main inp' empty_session))"
    if "credential inp \<noteq> None" "clean_clicked inp"
  proof -
    from that obtain k where k: "credential inp = Some k" by auto
    have m: "messages (session (main inp s')) = Some []" for s'
      by (simp add: main_clean [OF k that(2)] clean_chat_def)
    have t: "transcript (session (main inp s)) = transcript empty_session"
      by (simp add: transcript_def m te [unfolded transcript_def])
    have st: "status (main inp s) = Rerun"
      by (simp add: main_clean [OF k that(2)])
    from st m main_submit_cong [OF _ t] show ?thesis
      by blast
  qed
  from a b c d e f show ?thesis by blast
qed

theorem reset_idempotent_witness:
  "credential clean_inputs \<noteq> None \<and> clean_clicked clean_inputs \<and>
   submits (demo_inputs (Inr hello_stream) (Some ''hi'')) ''hi'' \<and>
   transcript used_session \<noteq> [] \<and>
   status (main clean_inputs used_session) = Rerun \<and>
   messages (session (main clean_inputs used_session)) = Some [] \<and>
   messages (session (main clean_inputs (session (main clean_inputs used_session)))) = Some [] \<and>
   messages (session (main (demo_inputs (Inr hello_stream) (Some ''hi''))
     (session (main clean_inputs used_session)))) =
   messages (session (main (demo_inputs (Inr hello_stream) (Some ''hi'')) empty_session))"
proof -
  have a: "credential clean_inputs \<noteq> None"
    by (simp add: clean_inputs_def credential_def demo_inputs_def)
  have b: "clean_clicked clean_inputs"
    by (simp add: clean_inputs_def)
  have c: "submits (demo_inputs (Inr hello_stream) (Some ''hi'')) ''hi''"
    by (simp add: submits_def credential_def demo_inputs_def)
  have d: "transcript used_session \<noteq> []"
    by (simp add: transcript_def used_session_def)
  from reset_idempotent
         [where inp = clean_inputs and s = used_session
            and inp' = "demo_inputs (Inr hello_stream) (Some ''hi'')" and p = "''hi''"]
       a b c d
  show ?thesis by blast
qed

text \<open>
  Claim C8 describes what the docstring of \<open>get_client\<close> promises: the secrets first, the
  environment variable \<open>OPENAI_API_KEY\<close> as the fallback, and the error with \<open>st.stop()\<close>
  when neither gives a key. The code does not do this when there is no secrets file:
  \<open>st.secrets.get\<close> raises before \<open>os.getenv\<close> is evaluated. With the key set in the
  environment only, no client is built and the execution ends in the uncaught exception;
  with no key anywhere, it ends in the same exception, with no error drawn and without
  \<open>st.stop()\<close>.
\<close>

theorem get_client_without_secrets_file:
  "secrets env_only_inputs = None \<and>
   environ env_only_inputs ''OPENAI_API_KEY'' = Some ''sk-test'' \<and>
   get_client (secrets env_only_inputs) (environ env_only_inputs) (remote env_only_inputs) =
     Inl StreamlitSecretNotFoundError \<and>
   main env_only_inputs empty_session =
     \<lparr>status = Crashed StreamlitSecretNotFoundError, session = init_state empty_session,
      drawn = [], requested = [], output_text = None\<rparr> \<and>
   secrets no_key_inputs = None \<and>
   environ no_key_inputs ''OPENAI_API_KEY'' = None \<and>
   get_client (secrets no_key_inputs) (environ no_key_inputs) (remote no_key_inputs) =
     Inl StreamlitSecretNotFoundError \<and>
   main no_key_inputs empty_session =
     \<lparr>status = Crashed StreamlitSecretNotFoundError, session = init_state empty_session,
      drawn = [], requested = [], output_text = None\<rparr>"
proof -
  have a: "secrets env_only_inputs = None"
    and b: "environ env_only_inputs ''OPENAI_API_KEY'' = Some ''sk-test''"
    by (simp_all add: env_only_inputs_def demo_inputs_def)
  have c: "secrets no_key_inputs = None"
    and d: "environ no_key_inputs ''OPENAI_API_KEY'' = None"
    by (simp_all add: no_key_inputs_def demo_inputs_def)
  have g: "get_client None env ep = Inl StreamlitSecretNotFoundError" for env ep
    by (simp add: get_client_def)
  show ?thesis
    by (simp add: a b c d g main_no_secrets_file)
qed

text \<open>
  Claim C9. In a user turn the assistant's message is appended exactly when the text
  returned by \<open>stream_response\<close> is non-empty. The returned text is empty when the stream
  failed and also when it succeeded with no text; in both cases the stored messages end
  with the user's message.
\<close>

theorem assistant_commit_iff_nonempty:
  assumes "submits inp p"
  shows "\<exists>out. output_text (main inp s0) = Some out \<and>
           messages (session (main inp s0)) =
             Some (transcript s0 @ [\<lparr>role = ''user'', content = p\<rparr>] @
                   (if out \<noteq> [] then [\<lparr>role = ''assistant'', content = out\<rparr>] else [])) \<and>
           (out = [] \<longleftrightarrow>
              raised (remote inp (the_request inp s0 p)) \<noteq> None \<or>
              concat (received (remote inp (the_request inp s0 p))) = [])"
proof (cases "raised (remote inp (the_request inp s0 p))")
  case None
  have out: "output_text (main inp s0) =
      Some (concat (received (remote inp (the_request inp s0 p))))"
    using main_submit_output(1) [OF assms, of s0] None by simp
  show ?thesis
    using main_submit_view(1) [OF assms, of s0] out None by simp
next
  case (Some e)
  have out: "output_text (main inp s0) = Some []"
    using main_submit_output(1) [OF assms, of s0] Some by simp
  show ?thesis
    using main_submit_view(1) [OF assms, of s0] out Some by simp
qed

theorem assistant_commit_iff_nonempty_witness:
  "submits (demo_inputs (Inr silent_stream) (Some ''hi'')) ''hi'' \<and>
   raised (remote (demo_inputs (Inr silent_stream) (Some ''hi''))
     (the_request (demo_inputs (Inr silent_stream) (Some ''hi'')) empty_session ''hi'')) = None \<and>
   output_text (main (demo_inputs (Inr silent_stream) (Some ''hi'')) empty_session) = Some [] \<and>
   messages (session (main (demo_inputs (Inr silent_stream) (Some ''hi'')) empty_session)) =
     Some [\<lparr>role = ''user'', content = ''hi''\<rparr>] \<and>
   submits (demo_inputs (Inr hello_stream) (Some ''hi'')) ''hi'' \<and>
   messages (session (main (demo_inputs (Inr hello_stream) (Some ''hi'')) empty_session)) =
     Some [\<lparr>role = ''user'', content = ''hi''\<rparr>, \<lparr>role = ''assistant'', content = ''Hello''\<rparr>]"
proof -
  have t: "transcript empty_session = []"
    by (simp add: transcript_def empty_session_def)
  have a: "submits (demo_inputs (Inr silent_stream) (Some ''hi'')) ''hi''"
    by (simp add: submits_def credential_def demo_inputs_def)
  have b: "raised (remote (demo_inputs (Inr silent_stream) (Some ''hi''))
     (the_request (demo_inputs (Inr silent_stream) (Some ''hi'')) empty_session ''hi'')) = None"
    by (simp add: demo_inputs_def remote_of_def silent_stream_def)
  have c: "concat (received (remote (demo_inputs (Inr silent_stream) (Some ''hi''))
     (the_request (demo_inputs (Inr silent_stream) (Some ''hi'')) empty_session ''hi''))) = []"
    by (simp add: demo_inputs_def remote_of_def silent_stream_def fragments_def other_event_def)
  from assistant_commit_iff_nonempty [OF a, of empty_session] c t
  have d: "output_text (main (demo_inputs (Inr silent_stream) (Some ''hi'')) empty_session) =
      Some [] \<and>
    messages (session (main (demo_inputs (Inr silent_stream) (Some ''hi'')) empty_session)) =
      Some [\<lparr>role = ''user'', content = ''hi''\<rparr>]"
    by auto
  have a': "submits (demo_inputs (Inr hello_stream) (Some ''hi'')) ''hi''"
    by (simp add: submits_def credential_def demo_inputs_def)
  have b': "raised (remote (demo_inputs (Inr hello_stream) (Some ''hi''))
     (the_request (demo_inputs (Inr hello_stream) (Some ''hi'')) empty_session ''hi'')) = None"
    by (simp add: demo_inputs_def remote_of_def hello_stream_def)
  have o': "output_text (main (demo_inputs (Inr hello_stream) (Some ''hi'')) empty_session) =
      Some ''Hello''"
    using main_submit_output(1) [OF a', of empty_session] b'
    by (simp add: demo_inputs_def remote_of_def hello_stream_def hello_events_def
          fragments_def text_delta_def other_event_def)
  from assistant_commit_iff_nonempty [OF a', of empty_session] o' t
  have d': "messages (session (main (demo_inputs (Inr hello_stream) (Some ''hi''))
      empty_session)) =
      Some [\<lparr>role = ''user'', content = ''hi''\<rparr>, \<lparr>role = ''assistant'', content = ''Hello''\<rparr>]"
    by auto
  from a b d a' d' show ?thesis by blast
qed

text \<open>
  Claim C10. \<open>init_state\<close> sets a missing \<open>temperature\<close> to 0.5, and nothing reads it: two
  executions of the script that differ only in the temperature of the session state end
  the same way, send the same requests, return the same text, draw the same page and
  store the same messages; the temperature is not a field of the request either.
\<close>

theorem temperature_never_read:
  "temperature (init_state (s\<lparr>temperature := None\<rparr>)) = Some 0.5 \<and>
   requested (main inp (s\<lparr>temperature := t1\<rparr>)) =
     requested (main inp (s\<lparr>temperature := t2\<rparr>)) \<and>
   output_text (main inp (s\<lparr>temperature := t1\<rparr>)) =
     output_text (main inp (s\<lparr>temperature := t2\<rparr>)) \<and>
   drawn (main inp (s\<lparr>temperature := t1\<rparr>)) = drawn (main inp (s\<lparr>temperature := t2\<rparr>)) \<and>
   status (main inp (s\<lparr>temperature := t1\<rparr>)) = status (main inp (s\<lparr>temperature := t2\<rparr>)) \<and>
   messages (session (main inp (s\<lparr>temperature := t1\<rparr>))) =
     messages (session (main inp (s\<lparr>temperature := t2\<rparr>)))"
proof -
  have "temperature (init_state (s\<lparr>temperature := None\<rparr>)) = Some 0.5"
    by (simp add: init_state_temperature)
  then show ?thesis
    by (simp add: main_temperature)
qed

end
